theory Spec2Isabelle
  imports Complex_Main "HOL-Library.Char_ord" "HOL-Library.List_Lexorder"
begin

section \<open>Values, tables and errors\<close>

text \<open>
  The pipeline of \<^verbatim>\<open>notebooks/01_etl_encuesta_transform.py\<close> works on pandas tables
  read from a spreadsheet. A cell of such a table is a missing value, a number or a text.
  Numbers are modelled as exact rationals: the rounding error of 64-bit floats and
  infinite values are outside the model. Texts are byte strings in UTF-8 (equality and
  lexicographic order of UTF-8 strings agree with those of Python's code points).

  The stages modelled are the validator, the filter, the two classifiers, the transport
  buckets, the shopping conversion, the aggregation with its percentages, the
  consolidation of the accommodation columns and the completion of the matrix. The food
  totals, the two enrichers that merge further means into the summary, the ordering of
  the columns and the export are not needed for the statements proved below.
\<close>

datatype cell = NaN | Num rat | Str string

text \<open>
  Every \<^verbatim>\<open>raise\<close> and failing \<^verbatim>\<open>assert\<close> is a value. The three assertion failures of
  \<^verbatim>\<open>validate_data\<close> carry what their messages print.
\<close>

datatype error =
    KeyError string
  | TypeError
  | ValueError
  | Columnas_faltantes "string list"
  | No_hay_datos
  | Valor_inesperado cell

definition bind_r :: "error + 'a \<Rightarrow> ('a \<Rightarrow> error + 'b) \<Rightarrow> error + 'b" where
  "bind_r m f = (case m of Inl e \<Rightarrow> Inl e | Inr a \<Rightarrow> f a)"

fun traverse :: "('a \<Rightarrow> error + 'b) \<Rightarrow> 'a list \<Rightarrow> error + 'b list" where
  "traverse f [] = Inr []"
| "traverse f (x # xs) =
     (case f x of
        Inl e \<Rightarrow> Inl e
      | Inr y \<Rightarrow> (case traverse f xs of Inl e \<Rightarrow> Inl e | Inr ys \<Rightarrow> Inr (y # ys)))"

text \<open>
  A table has an ordered list of column names and a list of rows; a row gives a cell for
  every name, and only the names of \<open>columns\<close> are part of the table. The order of the
  rows stands for the index. A \<open>series\<close> is one row as a function receives it from
  \<^verbatim>\<open>df.apply(f, axis=1)\<close>: a lookup of a name that is no column raises \<^verbatim>\<open>KeyError\<close>.
\<close>

record frame =
  columns :: "string list"
  rows :: "(string \<Rightarrow> cell) list"

type_synonym series = "string \<rightharpoonup> cell"


definition getitem :: "series \<Rightarrow> string \<Rightarrow> error + cell" where
  "getitem row k = (case row k of None \<Rightarrow> Inl (KeyError k) | Some v \<Rightarrow> Inr v)"

definition getcol :: "frame \<Rightarrow> string \<Rightarrow> error + cell list" where
  "getcol df c =
     (if c \<in> set (columns df) then Inr (map (\<lambda>r. r c) (rows df)) else Inl (KeyError c))"

text \<open>\<^verbatim>\<open>df[c] = values\<close>: an existing column is overwritten in place, a new one is appended.\<close>

definition setcol :: "frame \<Rightarrow> string \<Rightarrow> cell list \<Rightarrow> frame" where
  "setcol df c vs =
     \<lparr> columns = (if c \<in> set (columns df) then columns df else columns df @ [c]),
       rows = map (\<lambda>(r, v). r(c := v)) (zip (rows df) vs) \<rparr>"

subsection \<open>Python and pandas on cells\<close>

text \<open>\<^verbatim>\<open>a == b\<close>: a missing value equals nothing, a number never equals a text.\<close>

fun py_eq :: "cell \<Rightarrow> cell \<Rightarrow> bool" where
  "py_eq (Num a) (Num b) = (a = b)"
| "py_eq (Str s) (Str t) = (s = t)"
| "py_eq _ _ = False"

text \<open>\<^verbatim>\<open>a > b\<close>: false when a missing value is compared with a number, a
  \<^verbatim>\<open>TypeError\<close> between a text and a number.\<close>

fun py_gt :: "cell \<Rightarrow> cell \<Rightarrow> error + bool" where
  "py_gt (Num a) (Num b) = Inr (b < a)"
| "py_gt (Str s) (Str t) = Inr (t < s)"
| "py_gt (Str s) _ = Inl TypeError"
| "py_gt _ (Str t) = Inl TypeError"
| "py_gt _ _ = Inr False"

text \<open>\<^verbatim>\<open>max(a, b, c)\<close> keeps the first argument that no later one exceeds.\<close>

definition py_max :: "cell \<Rightarrow> cell \<Rightarrow> cell \<Rightarrow> error + cell" where
  "py_max a b c =
     bind_r (py_gt b a) (\<lambda>g1.
       let m = (if g1 then b else a) in
       bind_r (py_gt c m) (\<lambda>g2. Inr (if g2 then c else m)))"

definition notna :: "cell \<Rightarrow> bool" where
  "notna c = (c \<noteq> NaN)"



section \<open>Configuration\<close>

record config =
  complete_survey_last_page :: rat
  excluded_accommodation :: string
  visitor_type1_categories :: "string list"
  visitor_type2_categories :: "string list"
  spain_code :: string
  valencia_code :: string
  foreign_code :: string

definition CONFIG :: config where
  "CONFIG =
     \<lparr> complete_survey_last_page = 7,
       excluded_accommodation =
         ''Ninguno, me desplac'' @ [CHR 0xC3, CHR 0xA9] @ '' desde mi lugar de residencia'',
       visitor_type1_categories = [''International'', ''National'', ''Local''],
       visitor_type2_categories =
         [''Eco-conscious'', ''Standard'', ''Young professional/student''],
       spain_code = ''Espa'' @ [CHR 0xC3, CHR 0xB1] @ ''a'',
       valencia_code = ''Valencia/Val'' @ [CHR 0xC3, CHR 0xA8] @ ''ncia'',
       foreign_code = ''Extranjero'' \<rparr>"

text \<open>The name of the completion-page column, \<^verbatim>\<open>"Ultima pagina"\<close> with its two accents.\<close>

definition ultima_pagina :: string where
  "ultima_pagina = [CHR 0xC3, CHR 0x9A] @ ''ltima p'' @ [CHR 0xC3, CHR 0xA1] @ ''gina''"

section \<open>The classifiers\<close>

text \<open>
  \<^verbatim>\<open>classify_visitor_type1\<close>. The lookups happen in the order of the source: the country
  is read only when the residence is not the foreign label, the province only when the
  first rule failed and the residence is Spain.
\<close>

definition classify_visitor_type1 :: "series \<Rightarrow> error + cell" where
  "classify_visitor_type1 row =
     bind_r (getitem row ''residencia'') (\<lambda>residencia.
     bind_r (if py_eq residencia (Str (foreign_code CONFIG)) then Inr True
             else bind_r (getitem row ''pais'') (\<lambda>pais.
                    Inr (notna pais \<and> \<not> py_eq pais (Str (spain_code CONFIG))))) (\<lambda>rule1.
     if rule1 then Inr (Str ''International'')
     else bind_r (if py_eq residencia (Str (spain_code CONFIG))
                  then bind_r (getitem row ''provincia'') (\<lambda>provincia.
                         Inr (py_eq provincia (Str (valencia_code CONFIG))))
                  else Inr False) (\<lambda>rule2.
          if rule2 then Inr (Str ''Local'')
          else if py_eq residencia (Str (spain_code CONFIG)) then Inr (Str ''National'')
          else Inr NaN)))"

definition classify_visitor_type2 :: "series \<Rightarrow> error + string" where
  "classify_visitor_type2 row =
     bind_r (getitem row ''public_transport_use_congreso'') (\<lambda>public.
     bind_r (getitem row ''car_use_congreso'') (\<lambda>car.
     bind_r (getitem row ''walk_bike_use_congreso'') (\<lambda>walk_bike.
     if py_eq public (Num 0) \<and> py_eq car (Num 0) \<and> py_eq walk_bike (Num 0)
     then Inr ''No transport reported''
     else bind_r (py_max public car walk_bike) (\<lambda>max_val.
          if py_eq walk_bike max_val then Inr ''Eco-conscious''
          else if py_eq public max_val then Inr ''Young professional/student''
          else Inr ''Standard''))))"

section \<open>Derived transport variables\<close>




section \<open>Validation\<close>

fun is_Str :: "cell \<Rightarrow> bool" where
  "is_Str (Str s) = True"
| "is_Str _ = False"

fun nums :: "cell list \<Rightarrow> rat list" where
  "nums [] = []"
| "nums (Num x # cs) = x # nums cs"
| "nums (c # cs) = nums cs"

text \<open>
  \<^verbatim>\<open>Series.max()\<close> skips missing values; on a column that holds a text it raises (or
  returns a text, which the comparison with 10 then rejects with the same
  \<^verbatim>\<open>TypeError\<close>).
\<close>

definition series_max :: "cell list \<Rightarrow> error + cell" where
  "series_max cs =
     (if list_ex is_Str cs then Inl TypeError
      else (case nums cs of [] \<Rightarrow> Inr NaN | v # vs \<Rightarrow> Inr (Num (fold max vs v))))"

fun py_le :: "cell \<Rightarrow> cell \<Rightarrow> error + bool" where
  "py_le (Num a) (Num b) = Inr (a \<le> b)"
| "py_le (Str s) (Str t) = Inr (s \<le> t)"
| "py_le (Str s) _ = Inl TypeError"
| "py_le _ (Str t) = Inl TypeError"
| "py_le _ _ = Inr False"

definition required_cols :: "string list" where
  "required_cols =
     [ultima_pagina, ''alojamiento'', ''residencia'', ''pais'', ''provincia'',
      ''noches_valencia'']"

text \<open>\<^verbatim>\<open>validate_data\<close> returns nothing and changes nothing: it accepts with \<open>Inr ()\<close>.\<close>

definition validate_data :: "frame \<Rightarrow> error + unit" where
  "validate_data df =
     (let missing_cols = filter (\<lambda>col. col \<notin> set (columns df)) required_cols in
      if missing_cols \<noteq> [] then Inl (Columnas_faltantes missing_cols)
      else bind_r (getcol df ultima_pagina) (\<lambda>page.
           if \<not> list_ex notna page then Inl No_hay_datos
           else bind_r (series_max page) (\<lambda>m.
                bind_r (py_le m (Num 10)) (\<lambda>ok.
                if ok then Inr () else Inl (Valor_inesperado m)))))"

section \<open>Filtering\<close>

text \<open>
  The two boolean-mask selections that build \<^verbatim>\<open>df_filtered\<close>: complete questionnaires
  first, then the rows whose accommodation is not the excluded label.
\<close>

definition df_filtered :: "frame \<Rightarrow> error + frame" where
  "df_filtered df =
     bind_r (getcol df ultima_pagina) (\<lambda>page.
     let df1 = df\<lparr>rows :=
                 filter (\<lambda>r. py_eq (r ultima_pagina) (Num (complete_survey_last_page CONFIG)))
                   (rows df)\<rparr> in
     bind_r (getcol df1 ''alojamiento'') (\<lambda>alojamiento.
     Inr (df1\<lparr>rows :=
            filter (\<lambda>r. \<not> py_eq (r ''alojamiento'') (Str (excluded_accommodation CONFIG)))
              (rows df1)\<rparr>)))"

section \<open>Shopping quantities\<close>







section \<open>Aggregation\<close>

text \<open>
  A mean that skips missing values (\<^verbatim>\<open>mean\<close> of a group, \<^verbatim>\<open>mean(axis=1)\<close> of a row):
  missing when nothing is left, a \<^verbatim>\<open>TypeError\<close> on a text.
\<close>

definition nanmean :: "cell list \<Rightarrow> error + cell" where
  "nanmean cs =
     (if list_ex is_Str cs then Inl TypeError
      else (case nums cs of
              [] \<Rightarrow> Inr NaN
            | v # vs \<Rightarrow> Inr (Num (sum_list (v # vs) / of_nat (length (v # vs))))))"


















section \<open>Accommodation buckets\<close>

definition groupings :: "(string \<times> string list) list" where
  "groupings =
     [(''avg_nights_Airbnb'',
         [''avg_nights_Alojamiento local sin coste'',
          ''avg_nights_Apartamento de alquiler (AirBnb)'']),
      (''avg_nights_Hotel 3 estrellas'', [''avg_nights_Hotel 3 estrellas'']),
      (''avg_nights_Hotel 4 estrellas'', [''avg_nights_Hotel 4 estrellas'']),
      (''avg_nights_Hotel 5 estrellas'', [''avg_nights_Hotel 5 estrellas'']),
      (''avg_nights_Pension o Hostal'',
         [''avg_nights_Hotel 2 estrellas'',
          ''avg_nights_Pensi'' @ [CHR 0xC3, CHR 0xB3] @ ''n o hostal''])]"

text \<open>One turn of the loop over \<^verbatim>\<open>groupings.items()\<close>.\<close>

definition group_columns :: "frame \<Rightarrow> string \<times> string list \<Rightarrow> error + frame" where
  "group_columns summary g =
     (let new_col = fst g; source_cols = snd g;
          existing_cols = filter (\<lambda>col. col \<in> set (columns summary)) source_cols in
      if existing_cols \<noteq> []
      then bind_r (traverse (\<lambda>r. nanmean (map r existing_cols)) (rows summary)) (\<lambda>means.
             Inr (setcol summary new_col means))
      else Inr (setcol summary new_col (replicate (length (rows summary)) NaN)))"

fun group_all :: "frame \<Rightarrow> (string \<times> string list) list \<Rightarrow> error + frame" where
  "group_all summary [] = Inr summary"
| "group_all summary (g # gs) = bind_r (group_columns summary g) (\<lambda>s. group_all s gs)"

definition group_accommodation_categories :: "frame \<Rightarrow> error + frame" where
  "group_accommodation_categories summary = group_all summary groupings"

section \<open>Matrix completion\<close>





section \<open>The statements of the specification\<close>

text \<open>
  The second classifier as the specification words it, on the three derived buckets of
  the congress context: the maximum of the three, and the priority of active over public
  over car.
\<close>

definition spec_type2 :: "rat \<Rightarrow> rat \<Rightarrow> rat \<Rightarrow> string" where
  "spec_type2 public car active =
     (if public = 0 \<and> car = 0 \<and> active = 0 then ''No transport reported''
      else if active = Max {public, car, active} then ''Eco-conscious''
      else if public = Max {public, car, active} then ''Young professional/student''
      else ''Standard'')"

text \<open>The first classifier as the specification words it: the first rule that matches wins.\<close>

definition spec_type1 :: "cell \<Rightarrow> cell \<Rightarrow> cell \<Rightarrow> cell" where
  "spec_type1 residence country province =
     (if residence = Str (foreign_code CONFIG)
         \<or> (country \<noteq> NaN \<and> country \<noteq> Str (spain_code CONFIG))
      then Str ''International''
      else if residence = Str (spain_code CONFIG) \<and> province = Str (valencia_code CONFIG)
      then Str ''Local''
      else if residence = Str (spain_code CONFIG) then Str ''National''
      else NaN)"




text \<open>
  The consolidated value of one bucket for one row, as the specification words it: the
  unweighted mean of the values that the row has in those source columns of the bucket
  that exist in the table; missing when there is no such value.
\<close>

definition bucket_mean :: "string list \<Rightarrow> string list \<Rightarrow> (string \<Rightarrow> cell) \<Rightarrow> cell" where
  "bucket_mean cols source_cols r =
     (let present = nums (map r (filter (\<lambda>c. c \<in> set cols) source_cols)) in
      if present = [] then NaN else Num (sum_list present / of_nat (length present)))"



section \<open>Notions for the proofs\<close>

text \<open>
  A list of groupings in which no new column is a new column again, or a source column,
  of a later grouping: each turn of the loop then reads what the table had at the start.
\<close>

fun independent :: "(string \<times> string list) list \<Rightarrow> bool" where
  "independent [] = True"
| "independent (g # gs) =
     (list_all (\<lambda>g'. fst g \<noteq> fst g' \<and> fst g \<notin> set (snd g')) gs \<and> independent gs)"






section \<open>Example records and tables\<close>

text \<open>A record with the three derived buckets, and a record with the three columns of origin.\<close>

definition buckets :: "rat \<Rightarrow> rat \<Rightarrow> rat \<Rightarrow> series" where
  "buckets p c a =
     [''public_transport_use_congreso'' \<mapsto> Num p, ''car_use_congreso'' \<mapsto> Num c,
      ''walk_bike_use_congreso'' \<mapsto> Num a]"

definition origin :: "cell \<Rightarrow> cell \<Rightarrow> cell \<Rightarrow> series" where
  "origin residence country province =
     [''residencia'' \<mapsto> residence, ''pais'' \<mapsto> country, ''provincia'' \<mapsto> province]"


text \<open>
  Four responses: a complete one with a hotel, an incomplete one, a complete one of a
  visitor who did not stay overnight, a complete one without an accommodation.
\<close>

definition filter_example :: frame where
  "filter_example =
     \<lparr> columns = [ultima_pagina, ''alojamiento''],
       rows = [(\<lambda>c. NaN)(ultima_pagina := Num 7, ''alojamiento'' := Str ''Hotel 3 estrellas''),
               (\<lambda>c. NaN)(ultima_pagina := Num 5, ''alojamiento'' := Str ''Hotel 4 estrellas''),
               (\<lambda>c. NaN)(ultima_pagina := Num 7,
                           ''alojamiento'' := Str (excluded_accommodation CONFIG)),
               (\<lambda>c. NaN)(ultima_pagina := Num 7)] \<rparr>"

text \<open>
  A table with the six required columns and no row at all, a valid table, and a table
  that lacks two required columns.
\<close>

definition empty_example :: frame where
  "empty_example = \<lparr> columns = required_cols, rows = [] \<rparr>"

definition valid_example :: frame where
  "valid_example =
     \<lparr> columns = required_cols @ [''dist_km''],
       rows = [(\<lambda>c. NaN)(ultima_pagina := Num 7), (\<lambda>c. NaN)(ultima_pagina := Num 3),
               (\<lambda>c. NaN)] \<rparr>"

definition incomplete_example :: frame where
  "incomplete_example =
     \<lparr> columns = [ultima_pagina, ''alojamiento'', ''residencia'', ''noches_valencia''],
       rows = [(\<lambda>c. NaN)(ultima_pagina := Num 7)] \<rparr>"



text \<open>A summary with the mean nights of two groups in three kinds of accommodation.\<close>

definition accommodation_example :: frame where
  "accommodation_example =
     \<lparr> columns =
         [''visitor_type_1'', ''visitor_type_2'', ''avg_nights_Hotel 2 estrellas'',
          ''avg_nights_Pensi'' @ [CHR 0xC3, CHR 0xB3] @ ''n o hostal'',
          ''avg_nights_Hotel 3 estrellas''],
       rows =
         [(\<lambda>c. NaN)(''visitor_type_1'' := Str ''Local'', ''visitor_type_2'' := Str ''Standard'',
             ''avg_nights_Hotel 2 estrellas'' := Num 2,
             ''avg_nights_Pensi'' @ [CHR 0xC3, CHR 0xB3] @ ''n o hostal'' := Num 4),
          (\<lambda>c. NaN)(''visitor_type_1'' := Str ''National'', ''visitor_type_2'' := Str ''Standard'',
             ''avg_nights_Hotel 2 estrellas'' := Num 3,
             ''avg_nights_Hotel 3 estrellas'' := Num 1)] \<rparr>"







section \<open>Errors, traversals and columns\<close>

lemma bind_r_Inr_iff: "bind_r m f = Inr y \<longleftrightarrow> (\<exists>a. m = Inr a \<and> f a = Inr y)"
  by (cases m) (simp_all add: bind_r_def)

lemma bind_r_simps [simp]: "bind_r (Inr a) f = f a" "bind_r (Inl e) f = Inl e"
  by (simp_all add: bind_r_def)




lemma py_eq_Str: "py_eq c (Str s) = (c = Str s)"
  by (cases c) auto


lemma setcol_columns: "set (columns (setcol df c vs)) = insert c (set (columns df))"
  by (auto simp: setcol_def)




lemma traverse_total:
  "(\<And>x. x \<in> set xs \<Longrightarrow> \<exists>y. f x = Inr y) \<Longrightarrow> \<exists>ys. traverse f xs = Inr ys"
proof (induction xs)
  case Nil
  then show ?case by simp
next
  case (Cons x xs)
  then obtain y ys where "f x = Inr y" "traverse f xs = Inr ys"
    by (metis list.set_intros(1) list.set_intros(2))
  then show ?case by simp
qed



lemma py_max_Num: "py_max (Num a) (Num b) (Num c) = Inr (Num (max (max a b) c))"
  by (auto simp: py_max_def Let_def max_def)

lemma classify_visitor_type2_Num:
  assumes "row ''public_transport_use_congreso'' = Some (Num p)"
    and "row ''car_use_congreso'' = Some (Num c)"
    and "row ''walk_bike_use_congreso'' = Some (Num a)"
  shows "classify_visitor_type2 row = Inr (spec_type2 p c a)"
proof -
  have m: "Max {p, c, a} = max (max p c) a"
    by (simp add: max.commute max.left_commute)
  show ?thesis
    using assms
    by (simp add: classify_visitor_type2_def getitem_def py_max_Num spec_type2_def m)
qed


section \<open>The classifiers meet their specification\<close>

text \<open>
  C2. On a record whose three derived congress buckets are the numbers \<open>p\<close> (public),
  \<open>c\<close> (car) and \<open>a\<close> (active), \<^verbatim>\<open>classify_visitor_type2\<close> returns "No transport
  reported" when all three are 0, and otherwise "Eco-conscious" when \<open>a\<close> is the maximum,
  else "Young professional/student" when \<open>p\<close> is the maximum, else "Standard".
\<close>

theorem classify_visitor_type2_spec:
  assumes "row ''public_transport_use_congreso'' = Some (Num p)"
    and "row ''car_use_congreso'' = Some (Num c)"
    and "row ''walk_bike_use_congreso'' = Some (Num a)"
  shows "classify_visitor_type2 row = Inr (spec_type2 p c a)"
  using assms by (rule classify_visitor_type2_Num)

text \<open>The instances the specification names: 5, 5, 5; 5, 5, 0; and 0, 0, 0.\<close>

theorem classify_visitor_type2_spec_witness:
  "classify_visitor_type2 (buckets 5 5 5) = Inr ''Eco-conscious''
   \<and> classify_visitor_type2 (buckets 5 5 0) = Inr ''Young professional/student''
   \<and> classify_visitor_type2 (buckets 0 0 0) = Inr ''No transport reported''"
  using classify_visitor_type2_spec [of "buckets 5 5 5" 5 5 5]
    classify_visitor_type2_spec [of "buckets 5 5 0" 5 5 0]
    classify_visitor_type2_spec [of "buckets 0 0 0" 0 0 0]
  by (simp add: buckets_def spec_type2_def)

text \<open>
  C3. On a record that has the three columns, \<^verbatim>\<open>classify_visitor_type1\<close> is the priority
  chain of the specification: International when the residence is the foreign label or
  the country is present and differs from the Spain label; otherwise Local when the
  residence is Spain and the province Valencia; otherwise National when the residence is
  Spain; otherwise missing.
\<close>

theorem classify_visitor_type1_spec:
  assumes "row ''residencia'' = Some residence"
    and "row ''pais'' = Some country"
    and "row ''provincia'' = Some province"
  shows "classify_visitor_type1 row = Inr (spec_type1 residence country province)"
  using assms
  by (simp add: classify_visitor_type1_def getitem_def py_eq_Str notna_def spec_type1_def)

text \<open>Residence Spain, province Valencia, country France: rule 1 wins over rule 2.\<close>

theorem classify_visitor_type1_spec_witness:
  "classify_visitor_type1
     (origin (Str (spain_code CONFIG)) (Str ''France'') (Str (valencia_code CONFIG)))
   = Inr (Str ''International'')"
  using classify_visitor_type1_spec
    [of "origin (Str (spain_code CONFIG)) (Str ''France'') (Str (valencia_code CONFIG))"
        "Str (spain_code CONFIG)" "Str ''France''" "Str (valencia_code CONFIG)"]
  by (simp add: origin_def spec_type1_def CONFIG_def)

section \<open>The second classification is total\<close>









section \<open>Filtering is idempotent\<close>

lemma df_filtered_Inr:
  "df_filtered df = Inr d \<longleftrightarrow>
     ultima_pagina \<in> set (columns df) \<and> ''alojamiento'' \<in> set (columns df)
     \<and> d = df\<lparr>rows :=
          filter (\<lambda>r. r ultima_pagina = Num 7
                    \<and> r ''alojamiento'' \<noteq> Str (excluded_accommodation CONFIG)) (rows df)\<rparr>"
proof -
  have e: "py_eq c (Num 7) = (c = Num 7)" for c by (cases c) auto
  have s: "complete_survey_last_page CONFIG = 7" by (simp add: CONFIG_def)
  show ?thesis
    by (auto simp: df_filtered_def getcol_def e s py_eq_Str Let_def)
qed

text \<open>
  C9. The filter returns whenever the table has the two columns; it keeps the rows
  whose completion page is 7 and whose accommodation is not the excluded label, and
  filtering its result again returns the identical table.
\<close>

theorem df_filtered_idempotent:
  "(ultima_pagina \<in> set (columns df) \<and> ''alojamiento'' \<in> set (columns df)
      \<longrightarrow> (\<exists>d. df_filtered df = Inr d))
   \<and> (\<forall>d. df_filtered df = Inr d \<longrightarrow>
         df_filtered d = Inr d
         \<and> columns d = columns df
         \<and> rows d = filter (\<lambda>r. r ultima_pagina = Num (complete_survey_last_page CONFIG)
                            \<and> r ''alojamiento'' \<noteq> Str (excluded_accommodation CONFIG))
                      (rows df))"
proof -
  have s: "complete_survey_last_page CONFIG = 7" by (simp add: CONFIG_def)
  show ?thesis by (auto simp: df_filtered_Inr s)
qed

theorem df_filtered_idempotent_witness:
  "\<exists>d. df_filtered filter_example = Inr d \<and> df_filtered d = Inr d \<and> length (rows d) = 2
     \<and> length (rows filter_example) = 4"
proof -
  have c: "ultima_pagina \<in> set (columns filter_example) \<and> ''alojamiento'' \<in> set (columns filter_example)"
    by (simp add: filter_example_def)
  with df_filtered_idempotent [of filter_example]
  obtain d where d: "df_filtered filter_example = Inr d" by blast
  with df_filtered_idempotent [of filter_example]
  have "df_filtered d = Inr d"
    and "rows d = filter (\<lambda>r. r ultima_pagina = Num (complete_survey_last_page CONFIG)
                            \<and> r ''alojamiento'' \<noteq> Str (excluded_accommodation CONFIG))
                      (rows filter_example)"
    by blast+
  moreover have "ultima_pagina \<noteq> ''alojamiento''" by (simp add: ultima_pagina_def)
  ultimately show ?thesis using d
    by (intro exI [of _ d]) (simp add: filter_example_def CONFIG_def)
qed

section \<open>Validation\<close>

lemma nums_set: "set (nums cs) = {v. Num v \<in> set cs}"
  by (induction cs rule: nums.induct) auto

lemma list_ex_is_Str: "list_ex is_Str cs \<longleftrightarrow> (\<exists>s. Str s \<in> set cs)"
proof (induction cs)
  case Nil
  then show ?case by simp
next
  case (Cons c cs)
  then show ?case by (cases c) auto
qed

lemma series_max_Inr:
  assumes "\<not> list_ex is_Str cs" and "list_ex notna cs"
  shows "series_max cs = Inr (Num (Max {v. Num v \<in> set cs}))" and "{v. Num v \<in> set cs} \<noteq> {}"
proof -
  from assms obtain c where c: "c \<in> set cs" "c \<noteq> NaN"
    by (auto simp: list_ex_iff notna_def)
  with assms(1) obtain v where v: "Num v \<in> set cs"
    by (cases c) (auto simp: list_ex_is_Str)
  then show "{v. Num v \<in> set cs} \<noteq> {}" by blast
  from v have "nums cs \<noteq> []" using nums_set [of cs] by auto
  then obtain x xs where x: "nums cs = x # xs" by (cases "nums cs") auto
  have "fold max xs x = Max (set (x # xs))" by (rule Max.set_eq_fold [symmetric])
  also have "\<dots> = Max {v. Num v \<in> set cs}" using x nums_set [of cs] by simp
  finally show "series_max cs = Inr (Num (Max {v. Num v \<in> set cs}))"
    using assms(1) x by (simp add: series_max_def)
qed

lemma missing_cols_set:
  "set (filter (\<lambda>col. col \<notin> set (columns df)) required_cols) = set required_cols - set (columns df)"
  by auto

text \<open>
  C7, as the code has it. When a required column is absent the validator fails with the
  list of all the missing required columns. When none is absent it looks at the
  completion-page column: with no value present it fails (no data); with a text among
  the values it fails with a type error; with numbers only it fails when the greatest
  exceeds 10, naming that value, and accepts otherwise.
\<close>

theorem validate_data_cases:
  "(\<not> set required_cols \<subseteq> set (columns df) \<longrightarrow>
      (\<exists>missing. validate_data df = Inl (Columnas_faltantes missing)
         \<and> set missing = set required_cols - set (columns df)))
   \<and> (set required_cols \<subseteq> set (columns df) \<longrightarrow>
        validate_data df =
          (if \<forall>r\<in>set (rows df). r ultima_pagina = NaN then Inl No_hay_datos
           else if \<exists>r\<in>set (rows df). is_Str (r ultima_pagina) then Inl TypeError
           else if \<exists>r\<in>set (rows df). \<exists>v. r ultima_pagina = Num v \<and> 10 < v
           then Inl (Valor_inesperado
                  (Num (Max {v. \<exists>r\<in>set (rows df). r ultima_pagina = Num v})))
           else Inr ()))"
proof (intro conjI impI)
  assume "\<not> set required_cols \<subseteq> set (columns df)"
  then have "filter (\<lambda>col. col \<notin> set (columns df)) required_cols \<noteq> []"
    by (auto simp: filter_empty_conv)
  then have "validate_data df
      = Inl (Columnas_faltantes (filter (\<lambda>col. col \<notin> set (columns df)) required_cols))"
    by (simp add: validate_data_def Let_def)
  with missing_cols_set [of df]
  show "\<exists>missing. validate_data df = Inl (Columnas_faltantes missing)
         \<and> set missing = set required_cols - set (columns df)"
    by blast
next
  assume sub: "set required_cols \<subseteq> set (columns df)"
  then have m: "filter (\<lambda>col. col \<notin> set (columns df)) required_cols = []"
    by (auto simp: filter_empty_conv)
  from sub have u: "ultima_pagina \<in> set (columns df)" by (auto simp: required_cols_def)
  let ?page = "map (\<lambda>r. r ultima_pagina) (rows df)"
  have v: "validate_data df =
      (if \<not> list_ex notna ?page then Inl No_hay_datos
       else bind_r (series_max ?page) (\<lambda>m.
            bind_r (py_le m (Num 10)) (\<lambda>ok. if ok then Inr () else Inl (Valor_inesperado m))))"
    using m u by (simp add: validate_data_def getcol_def)
  have na: "list_ex notna ?page \<longleftrightarrow> \<not> (\<forall>r\<in>set (rows df). r ultima_pagina = NaN)"
    by (auto simp: list_ex_iff notna_def)
  have st: "list_ex is_Str ?page \<longleftrightarrow> (\<exists>r\<in>set (rows df). is_Str (r ultima_pagina))"
    by (auto simp: list_ex_iff)
  have vs: "{v. Num v \<in> set ?page} = {v. \<exists>r\<in>set (rows df). r ultima_pagina = Num v}"
    by (auto simp: image_iff) metis
  show "validate_data df =
          (if \<forall>r\<in>set (rows df). r ultima_pagina = NaN then Inl No_hay_datos
           else if \<exists>r\<in>set (rows df). is_Str (r ultima_pagina) then Inl TypeError
           else if \<exists>r\<in>set (rows df). \<exists>v. r ultima_pagina = Num v \<and> 10 < v
           then Inl (Valor_inesperado
                  (Num (Max {v. \<exists>r\<in>set (rows df). r ultima_pagina = Num v})))
           else Inr ())"
  proof (cases "\<forall>r\<in>set (rows df). r ultima_pagina = NaN")
    case True
    then show ?thesis using v na by simp
  next
    case some: False
    show ?thesis
    proof (cases "\<exists>r\<in>set (rows df). is_Str (r ultima_pagina)")
      case True
      then show ?thesis using v na st some by (simp add: series_max_def)
    next
      case False
      with st have ns: "\<not> list_ex is_Str ?page" by simp
      from some na have an: "list_ex notna ?page" by simp
      let ?V = "{v. \<exists>r\<in>set (rows df). r ultima_pagina = Num v}"
      have fin: "finite ?V"
      proof -
        have "?V \<subseteq> (\<lambda>c. case c of Num v \<Rightarrow> v | _ \<Rightarrow> 0) ` set ?page"
          by (auto simp: image_iff) (metis cell.simps(10))
        then show ?thesis by (rule finite_subset) simp
      qed
      have sm: "series_max ?page = Inr (Num (Max ?V))"
        using series_max_Inr(1) [OF ns an] by (simp only: vs)
      have ne: "?V \<noteq> {}"
        using series_max_Inr(2) [OF ns an] unfolding vs .
      have "(\<exists>r\<in>set (rows df). \<exists>v. r ultima_pagina = Num v \<and> 10 < v) \<longleftrightarrow> 10 < Max ?V"
        using fin ne by (subst Max_gr_iff) auto
      then show ?thesis using v an sm some False by (auto simp: not_less)
    qed
  qed
qed

text \<open>
  The valid table is accepted, and the table that lacks two required columns is
  rejected with both names.
\<close>

theorem validate_data_cases_witness:
  "validate_data valid_example = Inr ()
   \<and> (\<exists>missing. validate_data incomplete_example = Inl (Columnas_faltantes missing)
        \<and> set missing = {''pais'', ''provincia''})"
proof -
  have a: "set required_cols \<subseteq> set (columns valid_example)"
    by (auto simp: valid_example_def)
  have b: "\<not> set required_cols \<subseteq> set (columns incomplete_example)"
    by (simp add: incomplete_example_def required_cols_def ultima_pagina_def)
  have c: "set required_cols - set (columns incomplete_example) = {''pais'', ''provincia''}"
    by (auto simp: incomplete_example_def required_cols_def ultima_pagina_def)
  have "validate_data valid_example = Inr ()"
    using validate_data_cases [of valid_example] a
    by (simp add: valid_example_def)
  moreover have "\<exists>missing. validate_data incomplete_example = Inl (Columnas_faltantes missing)
        \<and> set missing = {''pais'', ''provincia''}"
    using validate_data_cases [of incomplete_example] b c by simp
  ultimately show ?thesis by simp
qed

text \<open>
  The statement of the specification fails on the table with every required column and
  no row:
  no required column is absent, no value of the completion page exceeds 10, and the
  validator rejects the table.
\<close>

theorem validate_data_counterexample:
  "set required_cols \<subseteq> set (columns empty_example)
   \<and> \<not> (\<exists>r\<in>set (rows empty_example). \<exists>v. r ultima_pagina = Num v \<and> 10 < v)
   \<and> validate_data empty_example = Inl No_hay_datos"
  by (simp add: empty_example_def validate_data_def getcol_def required_cols_def)

section \<open>Shopping quantities\<close>









section \<open>Accommodation buckets\<close>

lemma nanmean_Inr:
  "nanmean cs = Inr v \<Longrightarrow>
   v = (if nums cs = [] then NaN else Num (sum_list (nums cs) / of_nat (length (nums cs))))"
  by (auto simp: nanmean_def split: if_splits list.splits)

lemma nanmean_total: "\<not> list_ex is_Str cs \<Longrightarrow> \<exists>v. nanmean cs = Inr v"
  by (simp add: nanmean_def split: list.splits)

lemma traverse_Inr_map:
  "traverse f xs = Inr ys \<Longrightarrow> (\<And>x y. x \<in> set xs \<Longrightarrow> f x = Inr y \<Longrightarrow> y = g x) \<Longrightarrow> ys = map g xs"
proof (induction xs arbitrary: ys)
  case Nil
  then show ?case by simp
next
  case (Cons x xs)
  from Cons.prems(1) obtain y ys' where y: "f x = Inr y" and t: "traverse f xs = Inr ys'"
    and e: "ys = y # ys'"
    by (auto split: sum.splits)
  from Cons.IH [OF t] Cons.prems(2) have "ys' = map g xs" by simp
  moreover from Cons.prems(2) [of x y] y have "y = g x" by simp
  ultimately show ?case using e by simp
qed

lemma setcol_map_rows:
  "rows (setcol df c (map h (rows df))) = map (\<lambda>r. r(c := h r)) (rows df)"
  by (simp add: setcol_def zip_map2 zip_same_conv_map)

lemma group_columns_Inr:
  assumes "group_columns s g = Inr s'"
  shows "set (columns s') = insert (fst g) (set (columns s))"
    and "rows s' = map (\<lambda>r. r(fst g := bucket_mean (columns s) (snd g) r)) (rows s)"
proof -
  let ?ex = "filter (\<lambda>col. col \<in> set (columns s)) (snd g)"
  let ?h = "bucket_mean (columns s) (snd g)"
  have "\<exists>vs. s' = setcol s (fst g) vs \<and> vs = map ?h (rows s)"
  proof (cases "?ex = []")
    case True
    then have "?h = (\<lambda>r. NaN)" by (simp add: bucket_mean_def fun_eq_iff)
    then have "map ?h (rows s) = replicate (length (rows s)) NaN"
      by (simp add: map_replicate_const)
    with assms True show ?thesis by (simp add: group_columns_def Let_def)
  next
    case False
    with assms obtain means
      where t: "traverse (\<lambda>r. nanmean (map r ?ex)) (rows s) = Inr means"
        and s': "s' = setcol s (fst g) means"
      by (auto simp: group_columns_def Let_def bind_r_Inr_iff)
    have "means = map ?h (rows s)"
      using t
    proof (rule traverse_Inr_map)
      fix r y assume "nanmean (map r ?ex) = Inr y"
      from nanmean_Inr [OF this] show "y = ?h r" by (simp add: bucket_mean_def Let_def)
    qed
    with s' show ?thesis by simp
  qed
  then have s': "s' = setcol s (fst g) (map ?h (rows s))" by simp
  show "set (columns s') = insert (fst g) (set (columns s))"
    by (simp add: s' setcol_columns)
  show "rows s' = map (\<lambda>r. r(fst g := ?h r)) (rows s)"
    by (simp add: s' setcol_map_rows)
qed

lemma group_columns_total:
  assumes "\<forall>r\<in>set (rows s). \<forall>c\<in>set (snd g). c \<in> set (columns s) \<longrightarrow> \<not> is_Str (r c)"
  shows "\<exists>s'. group_columns s g = Inr s'"
proof -
  let ?ex = "filter (\<lambda>col. col \<in> set (columns s)) (snd g)"
  have "\<exists>v. nanmean (map r ?ex) = Inr v" if "r \<in> set (rows s)" for r
    using assms that by (intro nanmean_total) (auto simp: list_ex_iff)
  then have "\<exists>vs. traverse (\<lambda>r. nanmean (map r ?ex)) (rows s) = Inr vs"
    by (rule traverse_total)
  then show ?thesis by (auto simp: group_columns_def Let_def)
qed

lemma bucket_mean_cong:
  assumes "\<And>c. c \<in> set source_cols \<Longrightarrow> (c \<in> set cols \<longleftrightarrow> c \<in> set cols') \<and> r c = r' c"
  shows "bucket_mean cols source_cols r = bucket_mean cols' source_cols r'"
proof -
  have f: "filter (\<lambda>c. c \<in> set cols) source_cols = filter (\<lambda>c. c \<in> set cols') source_cols"
    using assms by (intro filter_cong) auto
  have m: "map r (filter (\<lambda>c. c \<in> set cols') source_cols)
      = map r' (filter (\<lambda>c. c \<in> set cols') source_cols)"
    using assms by (intro map_cong) auto
  show ?thesis unfolding bucket_mean_def f m by (rule refl)
qed

lemma bucket_mean_not_Str: "\<not> is_Str (bucket_mean cols source_cols r)"
  by (simp add: bucket_mean_def Let_def)

lemma group_all_Inr:
  assumes "group_all s gs = Inr out" and "independent gs"
  shows "\<exists>f. rows out = map f (rows s)
           \<and> (\<forall>r. \<forall>g\<in>set gs. f r (fst g) = bucket_mean (columns s) (snd g) r)
           \<and> (\<forall>r c. c \<notin> fst ` set gs \<longrightarrow> f r c = r c)"
    and "set (columns out) = set (columns s) \<union> fst ` set gs"
  using assms
proof (induction gs arbitrary: s)
  case Nil
  {
    case 1
    then show ?case by (intro exI [of _ "\<lambda>r. r"]) simp
  next
    case 2
    then show ?case by simp
  }
next
  case (Cons g gs)
  {
    case 1
    then obtain s' where g: "group_columns s g = Inr s'" and a: "group_all s' gs = Inr out"
      by (auto simp: bind_r_Inr_iff)
    from 1 have ind: "independent gs"
      and fresh: "\<forall>g'\<in>set gs. fst g \<noteq> fst g' \<and> fst g \<notin> set (snd g')"
      by (simp_all add: list_all_iff)
    let ?h = "\<lambda>r. r(fst g := bucket_mean (columns s) (snd g) r)"
    note gc = group_columns_Inr [OF g]
    from Cons.IH(1) [OF a ind] obtain f'
      where f1: "rows out = map f' (rows s')"
        and f2: "\<forall>r. \<forall>g'\<in>set gs. f' r (fst g') = bucket_mean (columns s') (snd g') r"
        and f3: "\<forall>r c. c \<notin> fst ` set gs \<longrightarrow> f' r c = r c"
      by blast
    have notin: "fst g \<notin> fst ` set gs" using fresh by auto
    have "rows out = map (f' \<circ> ?h) (rows s)" by (simp add: f1 gc(2))
    moreover have "(f' \<circ> ?h) r (fst g') = bucket_mean (columns s) (snd g') r"
      if "g' \<in> set (g # gs)" for r g'
    proof (cases "g' = g")
      case True
      then show ?thesis using f3 notin by simp
    next
      case False
      with that have m: "g' \<in> set gs" by simp
      with fresh have n: "fst g \<notin> set (snd g')" by simp
      have "bucket_mean (columns s') (snd g') (?h r) = bucket_mean (columns s) (snd g') r"
        using n by (intro bucket_mean_cong) (auto simp: gc(1))
      then show ?thesis using f2 m by simp
    qed
    moreover have "(f' \<circ> ?h) r c = r c" if "c \<notin> fst ` set (g # gs)" for r c
      using that f3 by simp
    ultimately show ?case by blast
  next
    case 2
    then obtain s' where g: "group_columns s g = Inr s'" and a: "group_all s' gs = Inr out"
      by (auto simp: bind_r_Inr_iff)
    from 2 have ind: "independent gs" by simp
    from Cons.IH(2) [OF a ind] group_columns_Inr(1) [OF g] show ?case by auto
  }
qed

lemma group_all_total:
  assumes "\<forall>r\<in>set (rows s). \<forall>c\<in>C. c \<in> set (columns s) \<longrightarrow> \<not> is_Str (r c)"
    and "\<forall>g\<in>set gs. set (snd g) \<subseteq> C"
  shows "\<exists>out. group_all s gs = Inr out"
  using assms
proof (induction gs arbitrary: s)
  case Nil
  then show ?case by simp
next
  case (Cons g gs)
  from Cons.prems have "\<forall>r\<in>set (rows s). \<forall>c\<in>set (snd g). c \<in> set (columns s) \<longrightarrow> \<not> is_Str (r c)"
    by auto
  from group_columns_total [OF this] obtain s' where g: "group_columns s g = Inr s'" by blast
  note gc = group_columns_Inr [OF g]
  have "\<forall>r\<in>set (rows s'). \<forall>c\<in>C. c \<in> set (columns s') \<longrightarrow> \<not> is_Str (r c)"
    using Cons.prems(1) by (auto simp: gc bucket_mean_not_Str)
  moreover from Cons.prems(2) have "\<forall>g\<in>set gs. set (snd g) \<subseteq> C" by simp
  ultimately obtain out where "group_all s' gs = Inr out" using Cons.IH by blast
  with g show ?case by simp
qed

lemma independent_groupings: "independent groupings"
  by (simp add: groupings_def)

text \<open>
  C8. The stage returns when no source column that exists holds a text. Whenever it
  returns, the table has the same rows in the same order and the five bucket columns, and
  in every row each bucket holds the unweighted mean of the values of the row in the
  bucket's source columns that exist in the table (a mean of the group means, which
  skips the missing ones): \<open>bucket_mean\<close>. When none of the source columns of a bucket
  exists, the bucket is missing in every row.
\<close>

theorem group_accommodation_categories_means:
  "((\<forall>r\<in>set (rows summary). \<forall>g\<in>set groupings. \<forall>c\<in>set (snd g).
        c \<in> set (columns summary) \<longrightarrow> \<not> is_Str (r c))
      \<longrightarrow> (\<exists>out. group_accommodation_categories summary = Inr out))
   \<and> (\<forall>out. group_accommodation_categories summary = Inr out \<longrightarrow>
         length (rows out) = length (rows summary)
         \<and> (\<forall>g\<in>set groupings.
               fst g \<in> set (columns out)
               \<and> (\<forall>i<length (rows summary).
                     (rows out ! i) (fst g)
                       = bucket_mean (columns summary) (snd g) (rows summary ! i))
               \<and> (set (snd g) \<inter> set (columns summary) = {}
                     \<longrightarrow> (\<forall>i<length (rows summary). (rows out ! i) (fst g) = NaN))))
   \<and> map fst groupings =
       [''avg_nights_Airbnb'', ''avg_nights_Hotel 3 estrellas'', ''avg_nights_Hotel 4 estrellas'',
        ''avg_nights_Hotel 5 estrellas'', ''avg_nights_Pension o Hostal'']"
proof (intro conjI impI allI)
  assume a: "\<forall>r\<in>set (rows summary). \<forall>g\<in>set groupings. \<forall>c\<in>set (snd g).
        c \<in> set (columns summary) \<longrightarrow> \<not> is_Str (r c)"
  have "\<exists>out. group_all summary groupings = Inr out"
  proof (rule group_all_total [where C = "\<Union>g\<in>set groupings. set (snd g)"])
    show "\<forall>r\<in>set (rows summary). \<forall>c\<in>(\<Union>g\<in>set groupings. set (snd g)).
        c \<in> set (columns summary) \<longrightarrow> \<not> is_Str (r c)"
      using a by blast
    show "\<forall>g\<in>set groupings. set (snd g) \<subseteq> (\<Union>g\<in>set groupings. set (snd g))"
      by blast
  qed
  then show "\<exists>out. group_accommodation_categories summary = Inr out"
    by (simp add: group_accommodation_categories_def)
next
  fix out assume "group_accommodation_categories summary = Inr out"
  then have ga: "group_all summary groupings = Inr out"
    by (simp add: group_accommodation_categories_def)
  from group_all_Inr(1) [OF ga independent_groupings] obtain f
    where f1: "rows out = map f (rows summary)"
      and f2: "\<forall>r. \<forall>g\<in>set groupings. f r (fst g) = bucket_mean (columns summary) (snd g) r"
    by blast
  note cols = group_all_Inr(2) [OF ga independent_groupings]
  show "length (rows out) = length (rows summary)" by (simp add: f1)
  have v: "(rows out ! i) (fst g) = bucket_mean (columns summary) (snd g) (rows summary ! i)"
    if "g \<in> set groupings" "i < length (rows summary)" for g i
    using that f2 by (simp add: f1)
  have n: "bucket_mean (columns summary) (snd g) r = NaN"
    if "set (snd g) \<inter> set (columns summary) = {}" for g r
  proof -
    from that have "filter (\<lambda>c. c \<in> set (columns summary)) (snd g) = []"
      by (auto simp: filter_empty_conv)
    then show ?thesis by (simp add: bucket_mean_def)
  qed
  show "\<forall>g\<in>set groupings.
               fst g \<in> set (columns out)
               \<and> (\<forall>i<length (rows summary).
                     (rows out ! i) (fst g)
                       = bucket_mean (columns summary) (snd g) (rows summary ! i))
               \<and> (set (snd g) \<inter> set (columns summary) = {}
                     \<longrightarrow> (\<forall>i<length (rows summary). (rows out ! i) (fst g) = NaN))"
    using v n cols by auto
next
  show "map fst groupings =
       [''avg_nights_Airbnb'', ''avg_nights_Hotel 3 estrellas'', ''avg_nights_Hotel 4 estrellas'',
        ''avg_nights_Hotel 5 estrellas'', ''avg_nights_Pension o Hostal'']"
    by (simp add: groupings_def)
qed

text \<open>
  Two groups: the first has means 2 and 4 for two-star hotels and pensions, the second
  has 3 for two-star hotels only and 1 for three-star hotels. No Airbnb source column
  exists.
\<close>

theorem group_accommodation_categories_means_witness:
  "\<exists>out. group_accommodation_categories accommodation_example = Inr out
     \<and> (rows out ! 0) ''avg_nights_Pension o Hostal'' = Num 3
     \<and> (rows out ! 1) ''avg_nights_Pension o Hostal'' = Num 3
     \<and> (rows out ! 0) ''avg_nights_Hotel 3 estrellas'' = NaN
     \<and> (rows out ! 1) ''avg_nights_Hotel 3 estrellas'' = Num 1
     \<and> (rows out ! 0) ''avg_nights_Airbnb'' = NaN
     \<and> (rows out ! 1) ''avg_nights_Airbnb'' = NaN"
proof -
  note t = group_accommodation_categories_means [of accommodation_example]
  have "\<forall>r\<in>set (rows accommodation_example). \<forall>g\<in>set groupings. \<forall>c\<in>set (snd g).
        c \<in> set (columns accommodation_example) \<longrightarrow> \<not> is_Str (r c)"
    by (simp add: accommodation_example_def groupings_def)
  with t obtain out where o: "group_accommodation_categories accommodation_example = Inr out"
    by blast
  have l: "length (rows accommodation_example) = 2" by (simp add: accommodation_example_def)
  from t o l have v: "\<forall>g\<in>set groupings. \<forall>i<2.
      (rows out ! i) (fst g)
        = bucket_mean (columns accommodation_example) (snd g) (rows accommodation_example ! i)"
    by simp
  have g: "(''avg_nights_Pension o Hostal'',
         [''avg_nights_Hotel 2 estrellas'',
          ''avg_nights_Pensi'' @ [CHR 0xC3, CHR 0xB3] @ ''n o hostal'']) \<in> set groupings"
    "(''avg_nights_Hotel 3 estrellas'', [''avg_nights_Hotel 3 estrellas'']) \<in> set groupings"
    "(''avg_nights_Airbnb'',
         [''avg_nights_Alojamiento local sin coste'',
          ''avg_nights_Apartamento de alquiler (AirBnb)'']) \<in> set groupings"
    by (simp_all add: groupings_def)
  have "(rows out ! 0) ''avg_nights_Pension o Hostal'' = Num 3"
    "(rows out ! 1) ''avg_nights_Pension o Hostal'' = Num 3"
    using v [rule_format, OF g(1)]
    by (simp_all add: accommodation_example_def bucket_mean_def)
  moreover have "(rows out ! 0) ''avg_nights_Hotel 3 estrellas'' = NaN"
    "(rows out ! 1) ''avg_nights_Hotel 3 estrellas'' = Num 1"
    using v [rule_format, OF g(2)]
    by (simp_all add: accommodation_example_def bucket_mean_def)
  moreover have "(rows out ! 0) ''avg_nights_Airbnb'' = NaN"
    "(rows out ! 1) ''avg_nights_Airbnb'' = NaN"
    using v [rule_format, OF g(3)]
    by (simp_all add: accommodation_example_def bucket_mean_def)
  ultimately show ?thesis using o by blast
qed

section \<open>Matrix completion\<close>













section \<open>Aggregation\<close>






















section \<open>The completed matrix\<close>



section \<open>The type-1 percentage\<close>















section \<open>Visitors with no transport reported\<close>







end
